theory Spec2Isabelle
  imports Complex_Main "HOL-Library.Word" "HOL-Library.Signed_Division"
begin

section \<open>The verification engine of the event backend\<close>

text \<open>
  A shallow embedding of \<^verbatim>\<open>internal/services\<close> (the verification service),
  of the repositories it calls and of \<^verbatim>\<open>utils.ExtractUUIDFromQRPath\<close>.

  Conventions of the embedding.
  \<^item> A \<^verbatim>\<open>uuid.UUID\<close> is represented by its canonical text, the value of its
    \<^verbatim>\<open>String\<close> method, which is what every repository method receives; the column
    comparison \<^verbatim>\<open>id = ?\<close> is equality of these texts.
  \<^item> A \<^verbatim>\<open>time.Time\<close> is an instant: the nanoseconds elapsed since Go's zero time.
    The readings of \<^verbatim>\<open>time.Now()\<close> made during one service call are one instant,
    the argument \<open>now\<close>.
  \<^item> Go's \<^verbatim>\<open>int\<close> and \<^verbatim>\<open>int64\<close> are 64-bit words (the image is built for a
    64-bit platform) wherever the service computes with them; \<^verbatim>\<open>float64\<close> quantities
    are exact rationals.
  \<^item> The database is a record of tables, each a list of rows in primary-key order. A
    query fails only for the reasons the data gives (no row, a duplicate primary key) and
    the repositories' own argument checks; the branches of the services that handle other
    query errors are kept as they are written.
  \<^item> Library functions that are not part of the repository (\<^verbatim>\<open>uuid.Parse\<close>,
    \<^verbatim>\<open>filepath.Base\<close>, \<^verbatim>\<open>filepath.Ext\<close>, \<^verbatim>\<open>Time.Format\<close>) are parameters,
    the fields of \<open>golib\<close>; \<^verbatim>\<open>uuid.New()\<close> is the argument \<open>newID\<close>.
  \<^item> Struct fields that no modelled function reads (contact data, timestamps of rows
    other than the redemption record, preloaded relations) are left out.
\<close>

subsection \<open>Go values\<close>

type_synonym uuid = string
type_synonym time = int
type_synonym go_int = "64 word"
type_synonym int64 = "64 word"


text \<open>\<^verbatim>\<open>Time.Truncate(d)\<close> for a positive duration: round down to a multiple of \<open>d\<close>
  since the zero time.\<close>

definition Truncate :: "time \<Rightarrow> int \<Rightarrow> time" where
  "Truncate t d = (if d \<le> 0 then t else t - t mod d)"

definition Hour :: int where
  "Hour = 3600 * 1000000000"

text \<open>Error values: the sentinel \<^verbatim>\<open>gorm.ErrRecordNotFound\<close>, an error made by
  \<^verbatim>\<open>errors.New\<close> or \<^verbatim>\<open>fmt.Errorf\<close> without \<^verbatim>\<open>%w\<close>, and one that wraps
  another with \<^verbatim>\<open>%w\<close>.\<close>

datatype goerr = ErrRecordNotFound | Errorf string | Wrapf string goerr

fun errors_Is :: "goerr \<Rightarrow> goerr \<Rightarrow> bool" where
  "errors_Is (Wrapf m e) t = (Wrapf m e = t \<or> errors_Is e t)"
| "errors_Is e t = (e = t)"

record golib =
  uuid_Parse :: "string \<Rightarrow> goerr option"
  filepath_Base :: "string \<Rightarrow> string"
  filepath_Ext :: "string \<Rightarrow> string"
  Format_date :: "time \<Rightarrow> string"

subsection \<open>models\<close>

record User =
  u_ID :: uuid
  u_Email :: string
  u_Role :: string

record Event =
  ev_ID :: uuid
  ev_Title :: string
  ev_TicketPrice :: rat

record EventDay =
  day_ID :: uuid
  day_EventID :: uuid
  day_Date :: time

record EventAction =
  act_ID :: uuid
  act_EventID :: uuid
  act_EventDayID :: uuid
  act_Name :: string
  act_Code :: string
  act_IsActive :: bool

record Participant =
  p_ID :: uuid
  p_EventID :: uuid
  p_Name :: string
  p_PaymentStatus :: string
  p_DeletedAt :: "time option"

record ActionLog =
  log_ID :: uuid
  log_ParticipantID :: uuid
  log_ActionID :: uuid
  log_VerifiedBy :: uuid
  log_VerifiedAt :: time
  log_CreatedAt :: time

record store =
  users :: "User list"
  events :: "Event list"
  event_days :: "EventDay list"
  event_actions :: "EventAction list"
  participants :: "Participant list"
  action_logs :: "ActionLog list"

subsection \<open>repositories\<close>

text \<open>\<^verbatim>\<open>Where(...).First(&row)\<close>: the first matching row, or
  \<^verbatim>\<open>gorm.ErrRecordNotFound\<close>.\<close>

definition First :: "('a \<Rightarrow> bool) \<Rightarrow> 'a list \<Rightarrow> goerr + 'a" where
  "First P rows = (case find P rows of None \<Rightarrow> Inl ErrRecordNotFound | Some r \<Rightarrow> Inr r)"

text \<open>The participant model has a \<^verbatim>\<open>gorm.DeletedAt\<close> column, so queries on it see only
  rows that are not soft-deleted.\<close>

definition GetParticipantByID :: "store \<Rightarrow> string \<Rightarrow> goerr + Participant" where
  "GetParticipantByID s pid =
     First (\<lambda>p. p_ID p = pid \<and> p_DeletedAt p = None) (participants s)"

definition GetParticipantCountByEventID :: "store \<Rightarrow> string \<Rightarrow> goerr + int64" where
  "GetParticipantCountByEventID s eventID =
     Inr (of_nat (length (filter (\<lambda>p. p_EventID p = eventID \<and> p_DeletedAt p = None)
                            (participants s))))"

definition GetUserByID :: "store \<Rightarrow> string \<Rightarrow> goerr + User" where
  "GetUserByID s uid = First (\<lambda>u. u_ID u = uid) (users s)"

definition GetEventByID :: "store \<Rightarrow> string \<Rightarrow> goerr + Event" where
  "GetEventByID s eid =
     (if eid = [] then Inl (Errorf ''event ID cannot be empty'')
      else case First (\<lambda>e. ev_ID e = eid) (events s) of
             Inl err \<Rightarrow>
               if errors_Is err ErrRecordNotFound
               then Inl (Errorf (''event not found with ID: '' @ eid))
               else Inl (Wrapf ''failed to get event'' err)
           | Inr e \<Rightarrow> Inr e)"

definition GetEventDayByID :: "store \<Rightarrow> string \<Rightarrow> goerr + EventDay" where
  "GetEventDayByID s did =
     (if did = [] then Inl (Errorf ''event day ID cannot be empty'')
      else case First (\<lambda>d. day_ID d = did) (event_days s) of
             Inl err \<Rightarrow>
               if errors_Is err ErrRecordNotFound
               then Inl (Errorf (''event day not found with ID: '' @ did))
               else Inl (Wrapf ''failed to get event day'' err)
           | Inr d \<Rightarrow> Inr d)"

definition GetEventActionByID :: "store \<Rightarrow> string \<Rightarrow> goerr + EventAction" where
  "GetEventActionByID s aid =
     (if aid = [] then Inl (Errorf ''event action ID cannot be empty'')
      else case First (\<lambda>a. act_ID a = aid) (event_actions s) of
             Inl err \<Rightarrow>
               if errors_Is err ErrRecordNotFound
               then Inl (Errorf (''event action not found with ID: '' @ aid))
               else Inl (Wrapf ''failed to get event action'' err)
           | Inr a \<Rightarrow> Inr a)"

definition GetEventActionByCode :: "store \<Rightarrow> string \<Rightarrow> goerr + EventAction" where
  "GetEventActionByCode s code =
     (if code = [] then Inl (Errorf ''event action code cannot be empty'')
      else case First (\<lambda>a. act_Code a = code \<and> act_IsActive a = True) (event_actions s) of
             Inl err \<Rightarrow>
               if errors_Is err ErrRecordNotFound
               then Inl (Errorf (''event action not found with code: '' @ code))
               else Inl (Wrapf ''failed to get event action'' err)
           | Inr a \<Rightarrow> Inr a)"

text \<open>\<^verbatim>\<open>db.Create(log)\<close>: the insert is refused when the primary key is taken.\<close>

definition CreateActionLog :: "store \<Rightarrow> ActionLog \<Rightarrow> goerr option \<times> store" where
  "CreateActionLog s l =
     (if log_ID l \<in> set (map log_ID (action_logs s))
      then (Some (Errorf ''duplicate key value violates unique constraint''), s)
      else (None, s\<lparr>action_logs := action_logs s @ [l]\<rparr>))"

text \<open>\<^verbatim>\<open>Count(&count)\<close> followed by \<^verbatim>\<open>count > 0\<close>: the number of matching rows is
  read as it is (a table holds fewer than \<open>2 ^ 63\<close> rows).\<close>

definition HasActionLog :: "store \<Rightarrow> string \<Rightarrow> string \<Rightarrow> goerr + bool" where
  "HasActionLog s participantID actionID =
     (let count = length (filter
                     (\<lambda>l. log_ParticipantID l = participantID \<and> log_ActionID l = actionID)
                     (action_logs s))
      in Inr (0 < count))"

text \<open>The redemption records of an event: those joined to a participant row of the
  event (the join is written in SQL and reads soft-deleted participants too).\<close>

definition logs_of_event :: "store \<Rightarrow> string \<Rightarrow> ActionLog list" where
  "logs_of_event s eventID =
     filter (\<lambda>l. list_ex (\<lambda>p. p_ID p = log_ParticipantID l \<and> p_EventID p = eventID)
                          (participants s))
            (action_logs s)"

text \<open>\<^verbatim>\<open>Offset(offset).Limit(limit).Order("action_logs.verified_at DESC")\<close>: gorm writes
  an offset or a limit into the query only when it is positive. SQL leaves the order of
  rows with equal \<^verbatim>\<open>verified_at\<close> open; here the later row of the table comes first.\<close>

definition page_of :: "go_int \<Rightarrow> go_int \<Rightarrow> 'a list \<Rightarrow> 'a list" where
  "page_of offset limit rows =
     (let rest = drop (nat (sint offset)) rows
      in if 0 <s limit then take (nat (sint limit)) rest else rest)"

definition GetActionLogsByEvent ::
  "store \<Rightarrow> string \<Rightarrow> go_int \<Rightarrow> go_int \<Rightarrow> goerr + (ActionLog list \<times> int64)" where
  "GetActionLogsByEvent s eventID offset limit =
     (let totalRows = (of_nat (length (logs_of_event s eventID)) :: int64);
          logs = page_of offset limit (rev (sort_key log_VerifiedAt (logs_of_event s eventID)))
      in Inr (logs, totalRows))"

definition GetActionLogsByParticipant :: "store \<Rightarrow> string \<Rightarrow> goerr + ActionLog list" where
  "GetActionLogsByParticipant s participantID =
     Inr (rev (sort_key log_VerifiedAt
            (filter (\<lambda>l. log_ParticipantID l = participantID) (action_logs s))))"

subsection \<open>services: the verification service\<close>

datatype VerificationErrorType =
    ErrInvalidInput | ErrInvalidQRCode | ErrParticipantNotFound | ErrActionNotFound
  | ErrActionInactive | ErrVerifierNotFound | ErrPaymentRequired | ErrAlreadyVerified
  | ErrEventNotFound | ErrEventMismatch | ErrEventNotStarted | ErrDatabaseError
  | ErrPermissionDenied | ErrNotImplemented

record VerificationError =
  Message :: string
  Code :: VerificationErrorType
  Details :: "goerr option"

definition NewVerificationError ::
  "string \<Rightarrow> VerificationErrorType \<Rightarrow> goerr option \<Rightarrow> VerificationError" where
  "NewVerificationError message code details =
     \<lparr>Message = message, Code = code, Details = details\<rparr>"

record VerifyRequest =
  QRCodeData :: string
  ActionCode :: string
  VerifierID :: string

record VerificationResult =
  Success :: bool
  res_Message :: string
  res_ActionLog :: ActionLog
  res_Participant :: Participant
  res_EventAction :: EventAction
  Timestamp :: time



record VerificationStats =
  st_EventID :: string
  st_EventTitle :: string
  TotalVerifications :: int64
  UniqueParticipants :: int64
  VerificationRate :: rat
  MostVerifiedAction :: string
  TopVerifier :: string
  LastVerification :: time
  TodayVerifications :: int64

text \<open>\<^verbatim>\<open>utils.ExtractUUIDFromQRPath\<close>\<close>

definition ExtractUUIDFromQRPath :: "golib \<Rightarrow> string \<Rightarrow> goerr + string" where
  "ExtractUUIDFromQRPath L qrPath =
     (let filename = filepath_Base L qrPath;
          uuidStr = filepath_Ext L filename
      in if uuidStr = [] then Inl (Errorf ''invalid QR path format'')
         else let uuidStr = take (length filename - length (filepath_Ext L filename)) filename
              in case uuid_Parse L uuidStr of
                   Some err \<Rightarrow> Inl (Wrapf ''invalid UUID in QR path'' err)
                 | None \<Rightarrow> Inr uuidStr)"

definition validateVerifyRequest :: "VerifyRequest \<Rightarrow> VerificationError option" where
  "validateVerifyRequest req =
     (if QRCodeData req = [] then
        Some (NewVerificationError ''QR code data is required'' ErrInvalidInput None)
      else if ActionCode req = [] then
        Some (NewVerificationError ''action code is required'' ErrInvalidInput None)
      else if VerifierID req = [] then
        Some (NewVerificationError ''verifier ID is required'' ErrInvalidInput None)
      else None)"

definition extractParticipantFromQR ::
  "golib \<Rightarrow> store \<Rightarrow> string \<Rightarrow> VerificationError + Participant" where
  "extractParticipantFromQR L s qrData =
     (case (case ExtractUUIDFromQRPath L qrData of
              Inr participantID \<Rightarrow> Inr participantID
            | Inl _ \<Rightarrow>
                (case uuid_Parse L qrData of
                   None \<Rightarrow> Inr qrData
                 | Some err \<Rightarrow>
                     Inl (NewVerificationError ''invalid QR code format'' ErrInvalidQRCode
                            (Some err)))) of
        Inl e \<Rightarrow> Inl e
      | Inr participantID \<Rightarrow>
          (case GetParticipantByID s participantID of
             Inl err \<Rightarrow>
               if errors_Is err ErrRecordNotFound
               then Inl (NewVerificationError ''participant not found'' ErrParticipantNotFound
                           (Some err))
               else Inl (NewVerificationError ''failed to get participant'' ErrDatabaseError
                           (Some err))
           | Inr participant \<Rightarrow> Inr participant))"

definition getAndValidateAction :: "store \<Rightarrow> string \<Rightarrow> VerificationError + EventAction" where
  "getAndValidateAction s actionCode =
     (case GetEventActionByCode s actionCode of
        Inl err \<Rightarrow>
          if errors_Is err ErrRecordNotFound
          then Inl (NewVerificationError ''action not found'' ErrActionNotFound (Some err))
          else Inl (NewVerificationError ''failed to get action'' ErrDatabaseError (Some err))
      | Inr action \<Rightarrow>
          if \<not> act_IsActive action
          then Inl (NewVerificationError ''action is not active'' ErrActionInactive None)
          else Inr action)"

definition isPaidEvent :: "store \<Rightarrow> string \<Rightarrow> bool" where
  "isPaidEvent s eventID =
     (case GetEventByID s eventID of
        Inl err \<Rightarrow> False
      | Inr event \<Rightarrow> 0 < ev_TicketPrice event)"

definition checkEventDayValidity ::
  "golib \<Rightarrow> store \<Rightarrow> time \<Rightarrow> string \<Rightarrow> VerificationError option" where
  "checkEventDayValidity L s now eventDayID =
     (case GetEventDayByID s eventDayID of
        Inl err \<Rightarrow> None
      | Inr eventDay \<Rightarrow>
          (let eventDate = day_Date eventDay
           in if now < Truncate eventDate (24 * Hour)
              then Some (NewVerificationError
                     (''verification not allowed before event day: '' @ Format_date L eventDate)
                     ErrEventNotStarted None)
              else None))"

definition performVerificationChecks ::
  "golib \<Rightarrow> store \<Rightarrow> time \<Rightarrow> Participant \<Rightarrow> EventAction \<Rightarrow> VerificationError option" where
  "performVerificationChecks L s now participant action =
     (if isPaidEvent s (p_EventID participant) \<and> p_PaymentStatus participant \<noteq> ''paid'' then
        Some (NewVerificationError
               (''participant payment status is '' @ [CHR 0x27] @ p_PaymentStatus participant
                  @ [CHR 0x27])
               ErrPaymentRequired None)
      else case HasActionLog s (p_ID participant) (act_ID action) of
        Inl err \<Rightarrow>
          Some (NewVerificationError ''failed to check existing verification'' ErrDatabaseError
                  (Some err))
      | Inr alreadyVerified \<Rightarrow>
          if alreadyVerified then
            Some (NewVerificationError (''already verified for action: '' @ act_Name action)
                    ErrAlreadyVerified None)
          else if act_EventID action \<noteq> p_EventID participant then
            Some (NewVerificationError ''action does not belong to participant's event''
                    ErrEventMismatch None)
          else (case checkEventDayValidity L s now (act_EventDayID action) of
                  Some err \<Rightarrow> Some err
                | None \<Rightarrow> None))"

definition createVerificationRecord ::
  "store \<Rightarrow> time \<Rightarrow> uuid \<Rightarrow> Participant \<Rightarrow> EventAction \<Rightarrow> User
     \<Rightarrow> (VerificationError + ActionLog) \<times> store" where
  "createVerificationRecord s now newID participant action verifier =
     (let actionLog = \<lparr>log_ID = newID, log_ParticipantID = p_ID participant,
                       log_ActionID = act_ID action, log_VerifiedBy = u_ID verifier,
                       log_VerifiedAt = now, log_CreatedAt = now\<rparr>
      in case CreateActionLog s actionLog of
           (Some err, s') \<Rightarrow>
             (Inl (NewVerificationError ''failed to create verification record''
                     ErrDatabaseError (Some err)), s')
         | (None, s') \<Rightarrow> (Inr actionLog, s'))"

definition VerifyParticipantAction ::
  "golib \<Rightarrow> store \<Rightarrow> time \<Rightarrow> uuid \<Rightarrow> VerifyRequest
     \<Rightarrow> (VerificationError + VerificationResult) \<times> store" where
  "VerifyParticipantAction L s now newID req =
     (case validateVerifyRequest req of
        Some err \<Rightarrow> (Inl err, s)
      | None \<Rightarrow>
     (case extractParticipantFromQR L s (QRCodeData req) of
        Inl err \<Rightarrow> (Inl err, s)
      | Inr participant \<Rightarrow>
     (case getAndValidateAction s (ActionCode req) of
        Inl err \<Rightarrow> (Inl err, s)
      | Inr action \<Rightarrow>
     (case GetUserByID s (VerifierID req) of
        Inl err \<Rightarrow>
          (Inl (NewVerificationError ''verifier not found'' ErrVerifierNotFound (Some err)), s)
      | Inr verifier \<Rightarrow>
     (case performVerificationChecks L s now participant action of
        Some err \<Rightarrow> (Inl err, s)
      | None \<Rightarrow>
     (case createVerificationRecord s now newID participant action verifier of
        (Inl err, s') \<Rightarrow> (Inl err, s')
      | (Inr actionLog, s') \<Rightarrow>
          (Inr \<lparr>Success = True,
                 res_Message = ''Successfully verified '' @ act_Name action
                                 @ '' for participant '' @ p_Name participant,
                 res_ActionLog = actionLog,
                 res_Participant = participant,
                 res_EventAction = action,
                 Timestamp = now\<rparr>, s')))))))"

definition GetParticipantVerificationHistory ::
  "store \<Rightarrow> string \<Rightarrow> VerificationError + ActionLog list" where
  "GetParticipantVerificationHistory s participantID =
     (if participantID = [] then
        Inl (NewVerificationError ''participant ID is required'' ErrInvalidInput None)
      else case GetParticipantByID s participantID of
        Inl err \<Rightarrow>
          Inl (NewVerificationError ''participant not found'' ErrParticipantNotFound (Some err))
      | Inr _ \<Rightarrow>
          (case GetActionLogsByParticipant s participantID of
             Inl err \<Rightarrow>
               Inl (NewVerificationError ''failed to get verification history''
                      ErrDatabaseError (Some err))
           | Inr verifications \<Rightarrow> Inr verifications))"


definition calculateVerificationStatistics ::
  "store \<Rightarrow> time \<Rightarrow> string \<Rightarrow> int64 \<Rightarrow> VerificationError + VerificationStats" where
  "calculateVerificationStatistics s now eventID totalParticipants =
     (case GetActionLogsByEvent s eventID 0 1 of
        Inl err \<Rightarrow>
          Inl (NewVerificationError ''failed to get verification data'' ErrDatabaseError
                 (Some err))
      | Inr (verifications, _) \<Rightarrow>
          (let totalVerifications = (of_nat (length verifications) :: int64);
               verificationRate =
                 (if 0 <s totalParticipants
                  then of_int (sint totalVerifications) / of_int (sint totalParticipants)
                  else 0)
           in Inr \<lparr>st_EventID = [], st_EventTitle = [],
                   TotalVerifications = totalVerifications,
                   UniqueParticipants = totalVerifications,
                   VerificationRate = verificationRate,
                   MostVerifiedAction = ''General Admission'',
                   TopVerifier = ''System'',
                   LastVerification = now,
                   TodayVerifications = 0\<rparr>))"

definition GetVerificationStats ::
  "store \<Rightarrow> time \<Rightarrow> string \<Rightarrow> VerificationError + VerificationStats" where
  "GetVerificationStats s now eventID =
     (if eventID = [] then
        Inl (NewVerificationError ''event ID is required'' ErrInvalidInput None)
      else case GetEventByID s eventID of
        Inl err \<Rightarrow> Inl (NewVerificationError ''event not found'' ErrEventNotFound (Some err))
      | Inr event \<Rightarrow>
          (case GetParticipantCountByEventID s eventID of
             Inl err \<Rightarrow>
               Inl (NewVerificationError ''failed to get participant count'' ErrDatabaseError
                      (Some err))
           | Inr totalParticipants \<Rightarrow>
               (case calculateVerificationStatistics s now eventID totalParticipants of
                  Inl err \<Rightarrow> Inl err
                | Inr stats \<Rightarrow>
                    Inr (stats\<lparr>st_EventID := eventID, st_EventTitle := ev_Title event\<rparr>))))"

text \<open>\<^verbatim>\<open>CanVerifyParticipant\<close> and \<^verbatim>\<open>RevertVerification\<close> return the answer together
  with the store they leave behind.\<close>

definition CanVerifyParticipant ::
  "store \<Rightarrow> string \<Rightarrow> string \<Rightarrow> (bool \<times> VerificationError option) \<times> store" where
  "CanVerifyParticipant s participantID actionID =
     (if participantID = [] \<or> actionID = [] then
        ((False, Some (NewVerificationError ''participant ID and action ID are required''
                         ErrInvalidInput None)), s)
      else case GetParticipantByID s participantID of
        Inl err \<Rightarrow>
          ((False, Some (NewVerificationError ''participant not found'' ErrParticipantNotFound
                           (Some err))), s)
      | Inr participant \<Rightarrow>
     (case GetEventActionByID s actionID of
        Inl err \<Rightarrow>
          ((False, Some (NewVerificationError ''action not found'' ErrActionNotFound
                           (Some err))), s)
      | Inr action \<Rightarrow>
          if isPaidEvent s (p_EventID participant) \<and> p_PaymentStatus participant \<noteq> ''paid'' then
            ((False, Some (NewVerificationError ''participant has not paid'' ErrPaymentRequired
                             None)), s)
          else (case HasActionLog s participantID actionID of
             Inl err \<Rightarrow>
               ((False, Some (NewVerificationError ''failed to check verification status''
                                ErrDatabaseError (Some err))), s)
           | Inr alreadyVerified \<Rightarrow>
               if alreadyVerified then
                 ((False, Some (NewVerificationError ''already verified for this action''
                                  ErrAlreadyVerified None)), s)
               else if act_EventID action \<noteq> p_EventID participant then
                 ((False, Some (NewVerificationError
                                  ''action does not belong to participant's event''
                                  ErrEventMismatch None)), s)
               else ((True, None), s))))"

definition RevertVerification :: "store \<Rightarrow> string \<Rightarrow> string \<Rightarrow> VerificationError option \<times> store" where
  "RevertVerification s verificationID adminID =
     (if verificationID = [] \<or> adminID = [] then
        (Some (NewVerificationError ''verification ID and admin ID are required''
                 ErrInvalidInput None), s)
      else case GetUserByID s adminID of
        Inl err \<Rightarrow>
          (Some (NewVerificationError ''admin user not found'' ErrVerifierNotFound (Some err)), s)
      | Inr admin \<Rightarrow>
          if u_Role admin \<noteq> ''admin'' then
            (Some (NewVerificationError ''only admin users can revert verifications''
                     ErrPermissionDenied None), s)
          else
            (Some (NewVerificationError ''revert verification not yet implemented''
                     ErrNotImplemented None), s))"

subsection \<open>Notions used to state the properties\<close>

text \<open>The error kind of a failed call.\<close>

definition failure_code :: "VerificationError + 'a \<Rightarrow> VerificationErrorType option" where
  "failure_code r = (case r of Inl e \<Rightarrow> Some (Code e) | Inr _ \<Rightarrow> None)"

text \<open>Steps 1 to 4 of \<^verbatim>\<open>VerifyParticipantAction\<close> succeed: the request is complete and
  its credential, action code and verifier resolve to \<open>p\<close>, \<open>a\<close> and \<open>v\<close>. These are
  the calls that reach \<^verbatim>\<open>performVerificationChecks\<close>.\<close>

definition resolved ::
  "golib \<Rightarrow> store \<Rightarrow> VerifyRequest \<Rightarrow> Participant \<Rightarrow> EventAction \<Rightarrow> User \<Rightarrow> bool" where
  "resolved L s req p a v =
     (validateVerifyRequest req = None \<and>
      extractParticipantFromQR L s (QRCodeData req) = Inr p \<and>
      getAndValidateAction s (ActionCode req) = Inr a \<and>
      GetUserByID s (VerifierID req) = Inr v)"

text \<open>The redemption records of a (participant, action) pair, and the central
  consistency guarantee: no pair has two of them.\<close>

definition logs_for :: "store \<Rightarrow> uuid \<Rightarrow> uuid \<Rightarrow> ActionLog list" where
  "logs_for s pid aid =
     filter (\<lambda>l. log_ParticipantID l = pid \<and> log_ActionID l = aid) (action_logs s)"





subsection \<open>A concrete deployment\<close>

text \<open>Two events, X with a ticket price and the free event Y; an event day of X that has
  begun (2021-07-30, 09:00) and one that lies ahead (2054-06-07); active actions on both
  days, one of event Y, and a retired one; a paid and an unpaid participant of X and a
  participant of Y. The library parameters below agree with the Go library on every
  argument these examples pass: the credentials are bare canonical UUIDs (no path, no
  extension), and the only date formatted is that of the day ahead.\<close>

abbreviation "U_admin \<equiv> ''aaaaaaaa-0000-4000-8000-000000000001''"
abbreviation "U_staff \<equiv> ''aaaaaaaa-0000-4000-8000-000000000002''"
abbreviation "U_nobody \<equiv> ''aaaaaaaa-0000-4000-8000-00000000000f''"
abbreviation "E_X \<equiv> ''eeeeeeee-0000-4000-8000-00000000000a''"
abbreviation "E_Y \<equiv> ''eeeeeeee-0000-4000-8000-00000000000b''"
abbreviation "D_begun \<equiv> ''dddddddd-0000-4000-8000-000000000001''"
abbreviation "D_ahead \<equiv> ''dddddddd-0000-4000-8000-000000000002''"
abbreviation "D_y \<equiv> ''dddddddd-0000-4000-8000-000000000003''"
abbreviation "A_checkin \<equiv> ''cccccccc-0000-4000-8000-000000000001''"
abbreviation "A_lunch \<equiv> ''cccccccc-0000-4000-8000-000000000002''"
abbreviation "A_ycheck \<equiv> ''cccccccc-0000-4000-8000-000000000003''"
abbreviation "A_old \<equiv> ''cccccccc-0000-4000-8000-000000000004''"
abbreviation "P_paid \<equiv> ''bbbbbbbb-0000-4000-8000-000000000001''"
abbreviation "P_unpaid \<equiv> ''bbbbbbbb-0000-4000-8000-000000000002''"
abbreviation "P_free \<equiv> ''bbbbbbbb-0000-4000-8000-000000000003''"
abbreviation "N_1 \<equiv> ''ffffffff-0000-4000-8000-000000000001''"
abbreviation "N_2 \<equiv> ''ffffffff-0000-4000-8000-000000000002''"

definition lib0 :: golib where
  "lib0 = \<lparr>uuid_Parse = (\<lambda>s. if length s = 36 then None
                                else Some (Errorf ''invalid UUID length'')),
           filepath_Base = (\<lambda>s. s),
           filepath_Ext = (\<lambda>s. []),
           Format_date = (\<lambda>t. ''2054-06-07'')\<rparr>"

definition admin :: User where
  "admin = \<lparr>u_ID = U_admin, u_Email = ''admin@event.com'', u_Role = ''admin''\<rparr>"

definition staff :: User where
  "staff = \<lparr>u_ID = U_staff, u_Email = ''staff@event.com'', u_Role = ''staff''\<rparr>"

definition event_X :: Event where
  "event_X = \<lparr>ev_ID = E_X, ev_Title = ''X'', ev_TicketPrice = 10\<rparr>"

definition event_Y :: Event where
  "event_Y = \<lparr>ev_ID = E_Y, ev_Title = ''Y'', ev_TicketPrice = 0\<rparr>"

definition day_begun :: EventDay where
  "day_begun = \<lparr>day_ID = D_begun, day_EventID = E_X,
                 day_Date = 738000 * (24 * Hour) + 9 * Hour\<rparr>"

definition day_ahead :: EventDay where
  "day_ahead = \<lparr>day_ID = D_ahead, day_EventID = E_X, day_Date = 750000 * (24 * Hour)\<rparr>"

definition day_y :: EventDay where
  "day_y = \<lparr>day_ID = D_y, day_EventID = E_Y, day_Date = 738000 * (24 * Hour)\<rparr>"

definition checkin :: EventAction where
  "checkin = \<lparr>act_ID = A_checkin, act_EventID = E_X, act_EventDayID = D_begun,
               act_Name = ''Day 1 check-in'', act_Code = ''CHECKIN'', act_IsActive = True\<rparr>"

definition lunch :: EventAction where
  "lunch = \<lparr>act_ID = A_lunch, act_EventID = E_X, act_EventDayID = D_ahead,
             act_Name = ''Lunch'', act_Code = ''LUNCH'', act_IsActive = True\<rparr>"

definition ycheck :: EventAction where
  "ycheck = \<lparr>act_ID = A_ycheck, act_EventID = E_Y, act_EventDayID = D_y,
              act_Name = ''Y check-in'', act_Code = ''YCHECK'', act_IsActive = True\<rparr>"

definition retired :: EventAction where
  "retired = \<lparr>act_ID = A_old, act_EventID = E_X, act_EventDayID = D_begun,
               act_Name = ''Old desk'', act_Code = ''OLD'', act_IsActive = False\<rparr>"

definition ani :: Participant where
  "ani = \<lparr>p_ID = P_paid, p_EventID = E_X, p_Name = ''Ani'', p_PaymentStatus = ''paid'',
           p_DeletedAt = None\<rparr>"

definition budi :: Participant where
  "budi = \<lparr>p_ID = P_unpaid, p_EventID = E_X, p_Name = ''Budi'', p_PaymentStatus = ''unpaid'',
            p_DeletedAt = None\<rparr>"

definition citra :: Participant where
  "citra = \<lparr>p_ID = P_free, p_EventID = E_Y, p_Name = ''Citra'', p_PaymentStatus = ''unpaid'',
             p_DeletedAt = None\<rparr>"

definition demo :: store where
  "demo = \<lparr>users = [admin, staff],
           events = [event_X, event_Y],
           event_days = [day_begun, day_ahead, day_y],
           event_actions = [checkin, lunch, ycheck, retired],
           participants = [ani, budi, citra],
           action_logs = []\<rparr>"

text \<open>08:00 on 2021-07-30: the day of \<open>day_begun\<close>, an hour before its time of day.\<close>

definition now0 :: time where
  "now0 = 738000 * (24 * Hour) + 8 * Hour"

definition request :: "string \<Rightarrow> string \<Rightarrow> string \<Rightarrow> VerifyRequest" where
  "request qr code verifier = \<lparr>QRCodeData = qr, ActionCode = code, VerifierID = verifier\<rparr>"

definition ani_checkin_log :: "uuid \<Rightarrow> ActionLog" where
  "ani_checkin_log n = \<lparr>log_ID = n, log_ParticipantID = P_paid, log_ActionID = A_checkin,
                        log_VerifiedBy = U_staff, log_VerifiedAt = now0, log_CreatedAt = now0\<rparr>"

definition ani_old_log :: "uuid \<Rightarrow> ActionLog" where
  "ani_old_log n = \<lparr>log_ID = n, log_ParticipantID = P_paid, log_ActionID = A_old,
                    log_VerifiedBy = U_staff, log_VerifiedAt = now0 - Hour,
                    log_CreatedAt = now0 - Hour\<rparr>"

text \<open>The deployment after two redemptions by Ani: at the desk that was retired since,
  and the day's check-in an hour later.\<close>

definition demo_redeemed :: store where
  "demo_redeemed = demo\<lparr>action_logs := [ani_old_log N_1, ani_checkin_log N_2]\<rparr>"

section \<open>Properties\<close>

subsection \<open>Evaluation of the concrete deployment\<close>

lemmas demo_defs = demo_def lib0_def admin_def staff_def event_X_def event_Y_def day_begun_def day_ahead_def
  day_y_def checkin_def lunch_def ycheck_def retired_def ani_def budi_def citra_def now0_def request_def
  ani_checkin_log_def ani_old_log_def demo_redeemed_def Hour_def

lemmas service_defs = VerifyParticipantAction_def validateVerifyRequest_def extractParticipantFromQR_def
     ExtractUUIDFromQRPath_def GetParticipantByID_def First_def getAndValidateAction_def
     GetEventActionByCode_def NewVerificationError_def GetUserByID_def performVerificationChecks_def
     isPaidEvent_def GetEventByID_def HasActionLog_def checkEventDayValidity_def GetEventDayByID_def
     Truncate_def createVerificationRecord_def CreateActionLog_def Let_def

subsection \<open>Lookups and the steps of a verify call\<close>

lemma First_Inr: "First P rows = Inr r \<Longrightarrow> P r \<and> r \<in> set rows"
  by (auto simp: First_def find_Some_iff split: option.splits)



lemma verify_resolved:
  "resolved L s rq p a v \<Longrightarrow>
   VerifyParticipantAction L s now nid rq =
     (case performVerificationChecks L s now p a of
        Some err \<Rightarrow> (Inl err, s)
      | None \<Rightarrow>
          (case createVerificationRecord s now nid p a v of
             (Inl err, s') \<Rightarrow> (Inl err, s')
           | (Inr actionLog, s') \<Rightarrow>
               (Inr \<lparr>Success = True,
                      res_Message = ''Successfully verified '' @ act_Name a
                                      @ '' for participant '' @ p_Name p,
                      res_ActionLog = actionLog, res_Participant = p,
                      res_EventAction = a, Timestamp = now\<rparr>, s')))"
  by (simp add: resolved_def VerifyParticipantAction_def)









lemma logs_update_lookups [simp]:
  "GetParticipantByID (s\<lparr>action_logs := ls\<rparr>) pid = GetParticipantByID s pid"
  "GetUserByID (s\<lparr>action_logs := ls\<rparr>) uid = GetUserByID s uid"
  "GetEventByID (s\<lparr>action_logs := ls\<rparr>) eid = GetEventByID s eid"
  "GetEventDayByID (s\<lparr>action_logs := ls\<rparr>) did = GetEventDayByID s did"
  "GetEventActionByCode (s\<lparr>action_logs := ls\<rparr>) code = GetEventActionByCode s code"
  "GetEventActionByID (s\<lparr>action_logs := ls\<rparr>) aid = GetEventActionByID s aid"
  by (simp_all add: GetParticipantByID_def GetUserByID_def GetEventByID_def GetEventDayByID_def
      GetEventActionByCode_def GetEventActionByID_def)

lemma logs_update_services [simp]:
  "isPaidEvent (s\<lparr>action_logs := ls\<rparr>) eid = isPaidEvent s eid"
  "extractParticipantFromQR L (s\<lparr>action_logs := ls\<rparr>) qr = extractParticipantFromQR L s qr"
  "getAndValidateAction (s\<lparr>action_logs := ls\<rparr>) code = getAndValidateAction s code"
  by (simp_all add: isPaidEvent_def extractParticipantFromQR_def getAndValidateAction_def
        cong: sum.case_cong option.case_cong)

lemma logs_update_resolved [simp]:
  "resolved L (s\<lparr>action_logs := ls\<rparr>) rq p a v = resolved L s rq p a v"
  by (simp add: resolved_def)









subsection \<open>The verdict of the checks, gate by gate\<close>

lemma createVerificationRecord_fresh:
  "nid \<notin> set (map log_ID (action_logs s)) \<Longrightarrow>
   createVerificationRecord s now nid p a v =
     (Inr \<lparr>log_ID = nid, log_ParticipantID = p_ID p, log_ActionID = act_ID a,
            log_VerifiedBy = u_ID v, log_VerifiedAt = now, log_CreatedAt = now\<rparr>,
      s\<lparr>action_logs := action_logs s @
           [\<lparr>log_ID = nid, log_ParticipantID = p_ID p, log_ActionID = act_ID a,
             log_VerifiedBy = u_ID v, log_VerifiedAt = now, log_CreatedAt = now\<rparr>]\<rparr>)"
  by (simp add: createVerificationRecord_def CreateActionLog_def Let_def)

lemma createVerificationRecord_taken:
  "nid \<in> set (map log_ID (action_logs s)) \<Longrightarrow>
   \<exists>e. createVerificationRecord s now nid p a v = (Inl e, s) \<and> Code e = ErrDatabaseError"
  by (simp add: createVerificationRecord_def CreateActionLog_def Let_def NewVerificationError_def)






lemma checks_code:
  "performVerificationChecks L s now p a = Some e \<Longrightarrow>
   Code e =
     (if isPaidEvent s (p_EventID p) \<and> p_PaymentStatus p \<noteq> ''paid'' then ErrPaymentRequired
      else if logs_for s (p_ID p) (act_ID a) \<noteq> [] then ErrAlreadyVerified
      else if act_EventID a \<noteq> p_EventID p then ErrEventMismatch
      else ErrEventNotStarted)"
  by (auto simp: performVerificationChecks_def HasActionLog_def logs_for_def Let_def
        checkEventDayValidity_def NewVerificationError_def
      split: if_splits option.splits sum.splits)

lemma verify_checks_fail:
  "resolved L s rq p a v \<Longrightarrow> performVerificationChecks L s now p a = Some e \<Longrightarrow>
   VerifyParticipantAction L s now nid rq = (Inl e, s)"
  by (simp add: verify_resolved)

lemma verify_checks_pass_code:
  assumes "resolved L s rq p a v" "performVerificationChecks L s now p a = None"
  shows "failure_code (fst (VerifyParticipantAction L s now nid rq)) \<in> {None, Some ErrDatabaseError}"
proof (cases "nid \<in> set (map log_ID (action_logs s))")
  case True
  then obtain e where "createVerificationRecord s now nid p a v = (Inl e, s)" "Code e = ErrDatabaseError"
    using createVerificationRecord_taken by blast
  with assms show ?thesis by (simp add: verify_resolved failure_code_def)
next
  case False
  with assms show ?thesis
    by (simp add: verify_resolved failure_code_def createVerificationRecord_fresh)
qed


text \<open>Whoever is refused for payment reached the checks with an unpaid participant of a paid event.\<close>

lemma verify_payment_required:
  assumes "failure_code (fst (VerifyParticipantAction L s now nid rq)) = Some ErrPaymentRequired"
  shows "\<exists>p a v. resolved L s rq p a v \<and> isPaidEvent s (p_EventID p) \<and> p_PaymentStatus p \<noteq> ''paid''"
proof (cases "\<exists>p a v. resolved L s rq p a v")
  case True
  then obtain p a v where r: "resolved L s rq p a v" by blast
  show ?thesis
  proof (cases "performVerificationChecks L s now p a")
    case None
    with r have "failure_code (fst (VerifyParticipantAction L s now nid rq)) \<in> {None, Some ErrDatabaseError}"
      by (rule verify_checks_pass_code)
    with assms show ?thesis by simp
  next
    case (Some e)
    with r have "VerifyParticipantAction L s now nid rq = (Inl e, s)" by (rule verify_checks_fail)
    with assms have "Code e = ErrPaymentRequired" by (simp add: failure_code_def)
    with Some have "isPaidEvent s (p_EventID p) \<and> p_PaymentStatus p \<noteq> ''paid''"
      by (auto dest!: checks_code split: if_splits)
    with r show ?thesis by blast
  qed
next
  case False
  then have "failure_code (fst (VerifyParticipantAction L s now nid rq)) \<noteq> Some ErrPaymentRequired"
    by (auto simp: resolved_def VerifyParticipantAction_def failure_code_def validateVerifyRequest_def
          extractParticipantFromQR_def getAndValidateAction_def NewVerificationError_def
        split: option.splits sum.splits if_splits)
  with assms show ?thesis by simp
qed



lemma isPaidEvent_unresolved:
  "GetEventByID s eid = Inl err \<Longrightarrow> isPaidEvent s eid = False"
  by (simp add: isPaidEvent_def)

subsection \<open>At-most-once redemption\<close>





subsection \<open>Payment gating\<close>






subsection \<open>The event-consistency gate\<close>




subsection \<open>The temporal gate\<close>




subsection \<open>The payment gate fails open\<close>

lemma CanVerify_payment_required:
  assumes "map_option Code (snd (fst (CanVerifyParticipant s pid aid))) = Some ErrPaymentRequired"
  shows "\<exists>p. GetParticipantByID s pid = Inr p \<and> isPaidEvent s (p_EventID p) \<and> p_PaymentStatus p \<noteq> ''paid''"
  using assms
  by (auto simp: CanVerifyParticipant_def NewVerificationError_def HasActionLog_def Let_def
      split: if_splits sum.splits)

text \<open>
  Claim C10. For every verify call whose credential resolves to a participant, and every
  canVerify call whose participant resolves, if the participant's event cannot be fetched
  then \<^verbatim>\<open>isPaidEvent\<close> answers false and the call does not fail with
  \<^verbatim>\<open>PAYMENT_REQUIRED\<close>, whatever the participant's payment status.
\<close>

theorem payment_gate_fail_open:
  "(extractParticipantFromQR L s (QRCodeData rq) = Inr p \<and> GetEventByID s (p_EventID p) = Inl err \<longrightarrow>
      \<not> isPaidEvent s (p_EventID p) \<and>
      failure_code (fst (VerifyParticipantAction L s now nid rq)) \<noteq> Some ErrPaymentRequired) \<and>
   (GetParticipantByID s pid = Inr p \<and> GetEventByID s (p_EventID p) = Inl err \<longrightarrow>
      \<not> isPaidEvent s (p_EventID p) \<and>
      map_option Code (snd (fst (CanVerifyParticipant s pid aid))) \<noteq> Some ErrPaymentRequired)"
proof (intro conjI impI)
  assume h: "extractParticipantFromQR L s (QRCodeData rq) = Inr p \<and> GetEventByID s (p_EventID p) = Inl err"
  then show np: "\<not> isPaidEvent s (p_EventID p)" by (simp add: isPaidEvent_unresolved)
  show "failure_code (fst (VerifyParticipantAction L s now nid rq)) \<noteq> Some ErrPaymentRequired"
  proof
    assume "failure_code (fst (VerifyParticipantAction L s now nid rq)) = Some ErrPaymentRequired"
    then obtain p' a' v' where "resolved L s rq p' a' v'" "isPaidEvent s (p_EventID p')"
      using verify_payment_required by blast
    with h np show False by (simp add: resolved_def)
  qed
next
  assume h: "GetParticipantByID s pid = Inr p \<and> GetEventByID s (p_EventID p) = Inl err"
  then show np: "\<not> isPaidEvent s (p_EventID p)" by (simp add: isPaidEvent_unresolved)
  show "map_option Code (snd (fst (CanVerifyParticipant s pid aid))) \<noteq> Some ErrPaymentRequired"
  proof
    assume "map_option Code (snd (fst (CanVerifyParticipant s pid aid))) = Some ErrPaymentRequired"
    then obtain p' where "GetParticipantByID s pid = Inr p'" "isPaidEvent s (p_EventID p')"
      using CanVerify_payment_required by blast
    with h np show False by simp
  qed
qed

theorem payment_gate_fail_open_witness:
  "extractParticipantFromQR lib0 (demo\<lparr>events := []\<rparr>) (QRCodeData (request P_unpaid ''CHECKIN'' U_staff)) = Inr budi \<and>
   GetParticipantByID (demo\<lparr>events := []\<rparr>) P_unpaid = Inr budi \<and>
   GetEventByID (demo\<lparr>events := []\<rparr>) (p_EventID budi) = Inl (Errorf (''event not found with ID: '' @ E_X)) \<and>
   p_PaymentStatus budi = ''unpaid'' \<and>
   failure_code (fst (VerifyParticipantAction lib0 (demo\<lparr>events := []\<rparr>) now0 N_1
                        (request P_unpaid ''CHECKIN'' U_staff))) \<noteq> Some ErrPaymentRequired \<and>
   map_option Code (snd (fst (CanVerifyParticipant (demo\<lparr>events := []\<rparr>) P_unpaid A_checkin)))
     \<noteq> Some ErrPaymentRequired"
proof -
  let ?s = "demo\<lparr>events := []\<rparr>"
  let ?rq = "request P_unpaid ''CHECKIN'' U_staff"
  have x: "extractParticipantFromQR lib0 ?s (QRCodeData ?rq) = Inr budi"
    by (simp add: service_defs demo_defs)
  have gp: "GetParticipantByID ?s P_unpaid = Inr budi" by (simp add: service_defs demo_defs)
  have e: "GetEventByID ?s (p_EventID budi) = Inl (Errorf (''event not found with ID: '' @ E_X))"
    by (simp add: service_defs demo_defs)
  have u: "p_PaymentStatus budi = ''unpaid''" by (simp add: budi_def)
  note inst = payment_gate_fail_open [of lib0 ?s ?rq budi "Errorf (''event not found with ID: '' @ E_X)"
      now0 N_1 P_unpaid A_checkin]
  from inst x e have 1: "failure_code (fst (VerifyParticipantAction lib0 ?s now0 N_1 ?rq)) \<noteq> Some ErrPaymentRequired"
    by blast
  from inst gp e have 2: "map_option Code (snd (fst (CanVerifyParticipant ?s P_unpaid A_checkin))) \<noteq> Some ErrPaymentRequired"
    by blast
  from x gp e u 1 2 show ?thesis by blast
qed

subsection \<open>Revocation\<close>

text \<open>
  Claim C8, as amended. Every revert call leaves the store unchanged, and its answer does
  not depend on the table of redemption records: the target record is never looked up. A
  call with an empty verification or admin identifier fails with \<^verbatim>\<open>INVALID_INPUT\<close>.
  Otherwise the call fails with \<^verbatim>\<open>VERIFIER_NOT_FOUND\<close> when the caller does not
  resolve, with \<^verbatim>\<open>PERMISSION_DENIED\<close> when the caller resolves to a user whose role is
  not admin, and with \<^verbatim>\<open>NOT_IMPLEMENTED\<close> when the caller is an admin.
\<close>

theorem revocation_contract:
  "snd (RevertVerification s vid aid) = s \<and>
   fst (RevertVerification (s\<lparr>action_logs := ls\<rparr>) vid aid) = fst (RevertVerification s vid aid) \<and>
   (vid = [] \<or> aid = [] \<longrightarrow>
      map_option Code (fst (RevertVerification s vid aid)) = Some ErrInvalidInput) \<and>
   (vid \<noteq> [] \<and> aid \<noteq> [] \<longrightarrow>
      (GetUserByID s aid = Inl err \<longrightarrow>
         map_option Code (fst (RevertVerification s vid aid)) = Some ErrVerifierNotFound) \<and>
      (GetUserByID s aid = Inr u \<and> u_Role u \<noteq> ''admin'' \<longrightarrow>
         map_option Code (fst (RevertVerification s vid aid)) = Some ErrPermissionDenied) \<and>
      (GetUserByID s aid = Inr u \<and> u_Role u = ''admin'' \<longrightarrow>
         fst (RevertVerification s vid aid) =
           Some (NewVerificationError ''revert verification not yet implemented''
                   ErrNotImplemented None)))"
  by (auto simp: RevertVerification_def NewVerificationError_def split: sum.splits)

theorem revocation_contract_witness:
  "N_1 \<noteq> [] \<and> U_staff \<noteq> [] \<and> GetUserByID demo_redeemed U_staff = Inr staff \<and>
   u_Role staff \<noteq> ''admin'' \<and>
   map_option Code (fst (RevertVerification demo_redeemed N_1 U_staff)) = Some ErrPermissionDenied \<and>
   GetUserByID demo_redeemed U_nobody = Inl ErrRecordNotFound \<and>
   map_option Code (fst (RevertVerification demo_redeemed N_1 U_nobody)) = Some ErrVerifierNotFound \<and>
   GetUserByID demo_redeemed U_admin = Inr admin \<and> u_Role admin = ''admin'' \<and>
   fst (RevertVerification demo_redeemed N_1 U_admin) =
     Some (NewVerificationError ''revert verification not yet implemented'' ErrNotImplemented None) \<and>
   snd (RevertVerification demo_redeemed N_1 U_admin) = demo_redeemed \<and>
   map_option Code (fst (RevertVerification demo_redeemed N_1 [])) = Some ErrInvalidInput"
proof -
  have n: "N_1 \<noteq> [] \<and> U_staff \<noteq> []" "N_1 \<noteq> [] \<and> U_nobody \<noteq> []" "N_1 \<noteq> [] \<and> U_admin \<noteq> []"
    by simp_all
  have s: "GetUserByID demo_redeemed U_staff = Inr staff" "u_Role staff \<noteq> ''admin''"
    by (simp_all add: service_defs demo_defs)
  have x: "GetUserByID demo_redeemed U_nobody = Inl ErrRecordNotFound"
    by (simp add: service_defs demo_defs)
  have a: "GetUserByID demo_redeemed U_admin = Inr admin" "u_Role admin = ''admin''"
    by (simp_all add: service_defs demo_defs)
  have 1: "map_option Code (fst (RevertVerification demo_redeemed N_1 U_staff)) = Some ErrPermissionDenied"
    using revocation_contract [of demo_redeemed N_1 U_staff _ _ staff] n s by blast
  have 2: "map_option Code (fst (RevertVerification demo_redeemed N_1 U_nobody)) = Some ErrVerifierNotFound"
    using revocation_contract [of demo_redeemed N_1 U_nobody _ ErrRecordNotFound] n x by blast
  have 3: "fst (RevertVerification demo_redeemed N_1 U_admin) =
     Some (NewVerificationError ''revert verification not yet implemented'' ErrNotImplemented None)"
    using revocation_contract [of demo_redeemed N_1 U_admin _ _ admin] n a by blast
  have 4: "snd (RevertVerification demo_redeemed N_1 U_admin) = demo_redeemed"
    using revocation_contract [of demo_redeemed N_1 U_admin] by blast
  have 5: "map_option Code (fst (RevertVerification demo_redeemed N_1 [])) = Some ErrInvalidInput"
    using revocation_contract [of demo_redeemed N_1 "[]"] by blast
  from n s x a 1 2 3 4 5 show ?thesis by blast
qed

text \<open>
  Claim C8 as stated fails: an admin who reverts a redemption that does not exist gets
  \<^verbatim>\<open>NOT_IMPLEMENTED\<close>, the same answer as for one that exists; the existence of the
  target is not validated.
\<close>

theorem revocation_contract_counterexample:
  "GetUserByID demo U_admin = Inr admin \<and> u_Role admin = ''admin'' \<and>
   N_1 \<notin> set (map log_ID (action_logs demo)) \<and>
   RevertVerification demo N_1 U_admin =
     (Some \<lparr>Message = ''revert verification not yet implemented'', Code = ErrNotImplemented,
             Details = None\<rparr>, demo) \<and>
   N_1 \<in> set (map log_ID (action_logs demo_redeemed)) \<and>
   RevertVerification demo_redeemed N_1 U_admin =
     (Some \<lparr>Message = ''revert verification not yet implemented'', Code = ErrNotImplemented,
             Details = None\<rparr>, demo_redeemed)"
  by (simp add: RevertVerification_def service_defs demo_defs)

subsection \<open>Action lookup\<close>

text \<open>\<^verbatim>\<open>GetEventActionByCode\<close> replaces \<^verbatim>\<open>gorm.ErrRecordNotFound\<close> by an error of its
  own that does not wrap it, and selects active actions only. So the two branches of
  \<^verbatim>\<open>getAndValidateAction\<close> that answer \<^verbatim>\<open>ACTION_NOT_FOUND\<close> and
  \<^verbatim>\<open>ACTION_INACTIVE\<close> are never taken.\<close>

lemma GetEventActionByCode_error:
  "GetEventActionByCode s code = Inl err \<Longrightarrow> \<not> errors_Is err ErrRecordNotFound"
  by (auto simp: GetEventActionByCode_def split: if_splits sum.splits)

lemma GetEventActionByCode_active:
  "GetEventActionByCode s code = Inr a \<Longrightarrow> act_IsActive a"
  by (auto simp: GetEventActionByCode_def split: if_splits sum.splits dest: First_Inr)

lemma getAndValidateAction_codes:
  "failure_code (getAndValidateAction s code) \<in> {None, Some ErrDatabaseError}"
  by (auto simp: getAndValidateAction_def failure_code_def NewVerificationError_def
      split: sum.splits dest: GetEventActionByCode_error GetEventActionByCode_active)

text \<open>
  Claim C3 at its failing inputs: no action of the deployment has the code \<^verbatim>\<open>NOPE\<close>,
  and the action with the code \<^verbatim>\<open>OLD\<close> is inactive; both calls fail with
  \<^verbatim>\<open>DATABASE_ERROR\<close> (and create no record), where the claim and the branches of
  \<^verbatim>\<open>getAndValidateAction\<close> say \<^verbatim>\<open>ACTION_NOT_FOUND\<close> and \<^verbatim>\<open>ACTION_INACTIVE\<close>.
\<close>

theorem action_lookup_failing_input:
  "''NOPE'' \<notin> set (map act_Code (event_actions demo)) \<and>
   VerifyParticipantAction lib0 demo now0 N_1 (request P_paid ''NOPE'' U_staff) =
     (Inl \<lparr>Message = ''failed to get action'', Code = ErrDatabaseError,
            Details = Some (Errorf ''event action not found with code: NOPE'')\<rparr>, demo) \<and>
   retired \<in> set (event_actions demo) \<and> act_Code retired = ''OLD'' \<and>
   act_IsActive retired = False \<and>
   VerifyParticipantAction lib0 demo now0 N_1 (request P_paid ''OLD'' U_staff) =
     (Inl \<lparr>Message = ''failed to get action'', Code = ErrDatabaseError,
            Details = Some (Errorf ''event action not found with code: OLD'')\<rparr>, demo)"
  by (simp add: service_defs demo_defs)

subsection \<open>Statistics by event\<close>

text \<open>
  Claim C6 at its failing input: event X has two redemption records and two participants.
  \<^verbatim>\<open>calculateVerificationStatistics\<close> asks for a page of one record "just to get
  count", drops the count and takes the length of the page: it reports one verification
  and a rate of one half, where the claim says two and one.
\<close>

theorem stats_failing_input:
  "GetActionLogsByEvent demo_redeemed E_X 0 1 = Inr ([ani_checkin_log N_2], 2) \<and>
   GetParticipantCountByEventID demo_redeemed E_X = Inr 2 \<and>
   GetVerificationStats demo_redeemed now0 E_X =
     Inr \<lparr>st_EventID = E_X, st_EventTitle = ''X'', TotalVerifications = 1,
           UniqueParticipants = 1, VerificationRate = 1 / 2,
           MostVerifiedAction = ''General Admission'', TopVerifier = ''System'',
           LastVerification = now0, TodayVerifications = 0\<rparr>"
  by (simp add: GetVerificationStats_def calculateVerificationStatistics_def GetActionLogsByEvent_def
       logs_of_event_def page_of_def GetParticipantCountByEventID_def service_defs demo_defs
       word_sless_alt)

subsection \<open>The dry run\<close>


subsection \<open>Pagination\<close>












end
